theory Spec2Isabelle
  imports Main
begin

section \<open>The bridging file server (fileServer.ts)\<close>

subsection \<open>Data\<close>

type_synonym token = string
type_synonym bytes = string

text \<open>A \<open>vscode.Uri\<close>; the server only reads its \<open>fsPath\<close>.\<close>

record vscode_uri =
  fsPath :: string

record ServedFile =
  filePath :: string
  uri :: vscode_uri
  token :: token
  mimeType :: string

text \<open>The callback payload, as the interface \<open>OnlyOfficeCallback\<close> types it: optional
  fields are options.\<close>

record OnlyOfficeCallback =
  status :: int
  url :: "string option"
  key :: "string option"

text \<open>
  A callback handler has type \<open>(data) => void\<close>. Calling it either throws synchronously, or
  returns; an \<open>async\<close> function always returns a promise, which settles later.
\<close>

datatype settlement = Fulfils | Rejects

datatype handler_run = Throws | Returns | ReturnsPromise settlement

type_synonym handler = "OnlyOfficeCallback \<Rightarrow> handler_run"

text \<open>An \<open>async (data) => { ... }\<close> arrow function: an exception of the body rejects the
  returned promise, it is never thrown at the caller.\<close>

definition async_fn :: "(OnlyOfficeCallback \<Rightarrow> settlement) \<Rightarrow> handler" where
  "async_fn body = (\<lambda>data. ReturnsPromise (body data))"

text \<open>What \<open>server.address()\<close> returns, and the \<open>http.Server\<close> object behind
  \<open>this.server\<close>: created with \<open>listen\<close> pending, or listening.\<close>

datatype server_address = AddressInfo nat | AddressString string | AddressNull

datatype http_server = ListenPending | Listening server_address

record FileServer =
  server :: "http_server option"
  servedFiles :: "token \<rightharpoonup> ServedFile"
  port :: nat
  hostIp :: string
  callbackHandlers :: "token \<rightharpoonup> handler"

text \<open>A promise as its caller sees it.\<close>

datatype 'a promise = Pending | Resolved 'a | Rejected string

text \<open>The functions of the Node.js runtime that the code calls on strings; they are
  parameters of the model. \<open>JSON_parse\<close> is \<open>JSON.parse\<close> followed by the cast to
  \<open>OnlyOfficeCallback\<close>, with \<open>None\<close> where it throws.\<close>

record node_lib =
  extname :: "string \<Rightarrow> string"
  basename :: "string \<Rightarrow> string"
  toLowerCase :: "string \<Rightarrow> string"
  JSON_parse :: "string \<Rightarrow> OnlyOfficeCallback option"

subsection \<open>Numbers in template strings\<close>

definition digit_char :: "nat \<Rightarrow> char" where
  "digit_char d = ''0123456789'' ! d"

fun string_of_nat :: "nat \<Rightarrow> string" where
  "string_of_nat n =
     (if n < 10 then [digit_char n] else string_of_nat (n div 10) @ [digit_char (n mod 10)])"

declare string_of_nat.simps [simp del]

subsection \<open>Construction and host address\<close>

record NetworkInterfaceInfo =
  internal :: bool
  family :: string
  address :: string

fun first_external :: "NetworkInterfaceInfo list \<Rightarrow> string option" where
  "first_external [] = None"
| "first_external (info # rest) =
     (if \<not> internal info \<and> family info = ''IPv4'' then Some (address info)
      else first_external rest)"

fun getHostIp :: "(string \<times> NetworkInterfaceInfo list) list \<Rightarrow> string" where
  "getHostIp [] = ''127.0.0.1''"
| "getHostIp ((name, iface) # rest) =
     (case first_external iface of Some a \<Rightarrow> a | None \<Rightarrow> getHostIp rest)"

definition new_FileServer :: "string \<Rightarrow> FileServer" where
  "new_FileServer ip =
     \<lparr>server = None, servedFiles = Map.empty, port = 0, hostIp = ip,
      callbackHandlers = Map.empty\<rparr>"

subsection \<open>Lifecycle\<close>

text \<open>
  \<open>start()\<close> up to its return: with a server object present the promise resolves with the
  recorded port at once; otherwise the server object is created, \<open>listen(0, '0.0.0.0')\<close>
  is requested and the promise stays pending until one of the two events below.
\<close>

definition start :: "FileServer \<Rightarrow> nat promise \<times> FileServer" where
  "start s =
     (if server s \<noteq> None then (Resolved (port s), s)
      else (Pending, s\<lparr>server := Some ListenPending\<rparr>))"

text \<open>
  The callback given to \<open>listen\<close>, run when the socket is bound; \<open>a\<close> is what
  \<open>this.server!.address()\<close> returns. With \<open>this.server\<close> null the call throws inside the
  callback and the promise of \<open>start\<close> stays pending.
\<close>

definition listening_callback :: "server_address \<Rightarrow> FileServer \<Rightarrow> nat promise \<times> FileServer" where
  "listening_callback a s =
     (case server s of
        None \<Rightarrow> (Pending, s)
      | Some srv \<Rightarrow>
          (case a of
             AddressInfo p \<Rightarrow> (Resolved p, s\<lparr>server := Some (Listening a), port := p\<rparr>)
           | _ \<Rightarrow> (Rejected ''Failed to get server port'', s\<lparr>server := Some (Listening a)\<rparr>)))"

text \<open>The \<open>'error'\<close> listener of the server: it rejects and changes no field.\<close>

definition error_event :: "string \<Rightarrow> FileServer \<Rightarrow> nat promise \<times> FileServer" where
  "error_event err s = (Rejected err, s)"

definition stop :: "FileServer \<Rightarrow> FileServer" where
  "stop s =
     (if server s \<noteq> None
      then s\<lparr>server := None, port := 0, servedFiles := Map.empty,
             callbackHandlers := Map.empty\<rparr>
      else s)"

subsection \<open>The token registry\<close>

definition mimeTypes :: "string \<rightharpoonup> string" where
  "mimeTypes = map_of
     [(''.pptx'', ''application/vnd.openxmlformats-officedocument.presentationml.presentation''),
      (''.ppt'', ''application/vnd.ms-powerpoint''),
      (''.docx'', ''application/vnd.openxmlformats-officedocument.wordprocessingml.document''),
      (''.xlsx'', ''application/vnd.openxmlformats-officedocument.spreadsheetml.sheet'')]"

definition mime_of :: "string \<Rightarrow> string" where
  "mime_of ext = (case mimeTypes ext of Some m \<Rightarrow> m | None \<Rightarrow> ''application/octet-stream'')"

record registration =
  reg_url :: string
  reg_token :: token
  reg_callbackUrl :: string

definition base_url :: "FileServer \<Rightarrow> string" where
  "base_url s = ''http://'' @ hostIp s @ '':'' @ string_of_nat (port s)"

text \<open>\<open>registerFile\<close>; \<open>tok\<close> is the hex string of \<open>crypto.randomBytes(16)\<close>.\<close>

definition registerFile ::
  "node_lib \<Rightarrow> token \<Rightarrow> vscode_uri \<Rightarrow> FileServer \<Rightarrow> registration \<times> FileServer" where
  "registerFile lib tok u s =
     (let fp = fsPath u;
          ext = toLowerCase lib (extname lib fp)
      in (\<lparr>reg_url = base_url s @ ''/file/'' @ tok,
           reg_token = tok,
           reg_callbackUrl = base_url s @ ''/callback/'' @ tok\<rparr>,
          s\<lparr>servedFiles := (servedFiles s)(tok \<mapsto>
               \<lparr>filePath = fp, uri = u, token = tok, mimeType = mime_of ext\<rparr>)\<rparr>))"

definition unregisterFile :: "token \<Rightarrow> FileServer \<Rightarrow> FileServer" where
  "unregisterFile tok s =
     s\<lparr>servedFiles := (servedFiles s)(tok := None),
       callbackHandlers := (callbackHandlers s)(tok := None)\<rparr>"

definition onCallback :: "token \<Rightarrow> handler \<Rightarrow> FileServer \<Rightarrow> FileServer" where
  "onCallback tok h s = s\<lparr>callbackHandlers := (callbackHandlers s)(tok \<mapsto> h)\<rparr>"

definition getPort :: "FileServer \<Rightarrow> nat" where
  "getPort s = port s"

subsection \<open>Requests and responses\<close>

text \<open>
  A \<open>string\<close> holds the UTF-8 bytes of the JavaScript string, a file's content its bytes.
\<close>

type_synonym filesystem = "string \<rightharpoonup> bytes"

datatype header_value = HText string | HNumber nat

record ServerResponse =
  statusCode :: nat
  headers :: "(string \<times> header_value) list"
  headersSent :: bool
  body :: bytes

record IncomingMessage =
  req_method :: string
  req_url :: "string option"
  req_chunks :: "string list"

text \<open>A call on the response object returns, or throws; in both cases the object is left in
  some state.\<close>

datatype 'a attempt = is_Returned: Returned (after: 'a) | Raised (after: 'a)

definition new_response :: ServerResponse where
  "new_response = \<lparr>statusCode = 200, headers = [], headersSent = False, body = []\<rparr>"

text \<open>
  Node's check of a header value: \<open>ERR_INVALID_CHAR\<close> is thrown for a value with a character
  outside \<open>[\t\x20-\x7e\x80-\xff]\<close>. In UTF-8 such a character is a control byte other than
  the tab, the byte \<open>0x7f\<close>, or starts with a lead byte from \<open>0xC4\<close> on (a code point from
  \<open>U+0100\<close> on). A number is written in digits and passes.
\<close>

definition invalid_header_byte :: "char \<Rightarrow> bool" where
  "invalid_header_byte c =
     ((of_char c :: nat) < 32 \<and> c \<noteq> CHR 0x09 \<or> c = CHR 0x7F \<or> 196 \<le> (of_char c :: nat))"

definition checkInvalidHeaderChar :: "string \<Rightarrow> bool" where
  "checkInvalidHeaderChar v = list_ex invalid_header_byte v"

fun invalid_header_value :: "header_value \<Rightarrow> bool" where
  "invalid_header_value (HText v) = checkInvalidHeaderChar v"
| "invalid_header_value (HNumber n) = False"

text \<open>A header set twice keeps its last value. (Node compares the names without regard to
  case; the code writes each name in one way only.)\<close>

fun set_entry ::
  "string \<Rightarrow> header_value \<Rightarrow> (string \<times> header_value) list \<Rightarrow> (string \<times> header_value) list" where
  "set_entry n v [] = [(n, v)]"
| "set_entry n v ((k, w) # hs) = (if k = n then (k, v) # hs else (k, w) # set_entry n v hs)"

text \<open>\<open>res.setHeader\<close> throws once the headers are sent, and on an invalid value.\<close>

definition setHeader :: "string \<Rightarrow> header_value \<Rightarrow> ServerResponse \<Rightarrow> ServerResponse attempt" where
  "setHeader n v res =
     (if headersSent res then Raised res
      else if invalid_header_value v then Raised res
      else Returned (res\<lparr>headers := set_entry n v (headers res)\<rparr>))"

fun setHeaders :: "(string \<times> header_value) list \<Rightarrow> ServerResponse \<Rightarrow> ServerResponse attempt" where
  "setHeaders [] res = Returned res"
| "setHeaders ((n, v) # hs) res =
     (case setHeader n v res of
        Returned res' \<Rightarrow> setHeaders hs res'
      | Raised res' \<Rightarrow> Raised res')"

text \<open>
  \<open>res.writeHead(code, headers)\<close> on a response that already has headers set: it throws when
  the headers are sent; otherwise it records the status code, passes the given headers one
  by one to \<open>setHeader\<close>, which may throw, and then sends the header block.
\<close>

definition writeHead ::
  "nat \<Rightarrow> (string \<times> header_value) list \<Rightarrow> ServerResponse \<Rightarrow> ServerResponse attempt" where
  "writeHead code hs res =
     (if headersSent res then Raised res
      else (case setHeaders hs (res\<lparr>statusCode := code\<rparr>) of
              Returned res' \<Rightarrow> Returned (res'\<lparr>headersSent := True\<rparr>)
            | Raised res' \<Rightarrow> Raised res'))"

text \<open>What \<open>res.end(data)\<close> and a stream piped into the response add to the body.\<close>

definition write_body :: "bytes \<Rightarrow> ServerResponse \<Rightarrow> ServerResponse" where
  "write_body b res = res\<lparr>body := body res @ b, headersSent := True\<rparr>"

text \<open>The statements \<open>res.writeHead(code, headers); res.end(data);\<close> in a row.\<close>

definition writeHead_end ::
  "nat \<Rightarrow> (string \<times> header_value) list \<Rightarrow> bytes \<Rightarrow> ServerResponse \<Rightarrow> ServerResponse attempt" where
  "writeHead_end code hs b res =
     (case writeHead code hs res of
        Returned res' \<Rightarrow> Returned (write_body b res')
      | Raised res' \<Rightarrow> Raised res')"

definition startsWith :: "string \<Rightarrow> string \<Rightarrow> bool" where
  "startsWith s p = (take (length p) s = p)"

definition substring :: "string \<Rightarrow> nat \<Rightarrow> string" where
  "substring s n = drop n s"

text \<open>How reading the file through \<open>fs.createReadStream\<close> goes: to the end, or an
  \<open>'error'\<close> event after some bytes. A path with no file makes \<open>fs.statSync\<close> throw.\<close>

datatype read_stream = StreamsAll | StreamError nat

text \<open>
  \<open>serveFile\<close>. The answer to an unknown token is written outside the \<open>try\<close> block. Inside
  it, \<open>fs.statSync\<close> throws when there is no file and \<open>res.writeHead(200, ...)\<close> throws on
  an invalid header value; the \<open>catch\<close> block then answers 500 on the response as the throw
  left it.
\<close>

definition serveFile ::
  "node_lib \<Rightarrow> token \<Rightarrow> ServerResponse \<Rightarrow> FileServer \<Rightarrow> filesystem \<Rightarrow> read_stream
     \<Rightarrow> ServerResponse attempt" where
  \<open>serveFile lib tok res s fs rd =
     (case servedFiles s tok of
        None \<Rightarrow>
          writeHead_end 404 [(''Content-Type'', HText ''text/plain'')] ''File not found'' res
      | Some fileInfo \<Rightarrow>
          (case fs (filePath fileInfo) of
             None \<Rightarrow>
               writeHead_end 500 [(''Content-Type'', HText ''text/plain'')]
                 ''Error reading file'' res
           | Some content \<Rightarrow>
               (case writeHead 200
                      [(''Content-Type'', HText (mimeType fileInfo)),
                       (''Content-Length'', HNumber (length content)),
                       (''Content-Disposition'',
                          HText (''attachment; filename="'' @ basename lib (filePath fileInfo)
                                   @ ''"''))] res of
                  Raised res' \<Rightarrow>
                    writeHead_end 500 [(''Content-Type'', HText ''text/plain'')]
                      ''Error reading file'' res'
                | Returned res1 \<Rightarrow>
                    (case rd of
                       StreamsAll \<Rightarrow> Returned (write_body content res1)
                     | StreamError n \<Rightarrow>
                         (let res2 = write_body (take n content) res1
                          in if \<not> headersSent res2
                             then (case writeHead 500 [] res2 of
                                     Returned res3 \<Rightarrow>
                                       Returned (write_body ''Error reading file'' res3)
                                   | Raised res3 \<Rightarrow> Raised res3)
                             else Returned (write_body ''Error reading file'' res2))))))\<close>

text \<open>\<open>handleCallback\<close>, at the \<open>'end'\<close> of the request body. Parsing, the call of the
  handler and the answer 200 are inside the \<open>try\<close> block; the \<open>catch\<close> block answers 500.
  The second component is the run of the handler, when one was called.\<close>

definition handleCallback ::
  "node_lib \<Rightarrow> token \<Rightarrow> IncomingMessage \<Rightarrow> ServerResponse \<Rightarrow> FileServer
     \<Rightarrow> ServerResponse attempt \<times> handler_run option" where
  \<open>handleCallback lib tok req res s =
     (let body = concat (req_chunks req);
          failed = writeHead_end 500 [(''Content-Type'', HText ''application/json'')]
                     ''{"error":1}'';
          ok = (case writeHead_end 200 [(''Content-Type'', HText ''application/json'')]
                       ''{"error":0}'' res of
                  Returned res' \<Rightarrow> Returned res'
                | Raised res' \<Rightarrow> failed res')
      in case JSON_parse lib body of
           None \<Rightarrow> (failed res, None)
         | Some data \<Rightarrow>
             (case callbackHandlers s tok of
                None \<Rightarrow> (ok, None)
              | Some h \<Rightarrow>
                  (case h data of
                     Throws \<Rightarrow> (failed res, Some Throws)
                   | r \<Rightarrow> (ok, Some r))))\<close>

text \<open>\<open>handleRequest\<close>. Nothing catches a throw of the three \<open>setHeader\<close> calls or of the
  answers written here: the request listener then throws.\<close>

definition handleRequest ::
  "node_lib \<Rightarrow> IncomingMessage \<Rightarrow> FileServer \<Rightarrow> filesystem \<Rightarrow> read_stream
     \<Rightarrow> ServerResponse attempt \<times> handler_run option" where
  \<open>handleRequest lib req s fs rd =
     (let u = (case req_url req of None \<Rightarrow> ''/'' | Some v \<Rightarrow> if v = [] then ''/'' else v)
      in case setHeaders
                [(''Access-Control-Allow-Origin'', HText ''*''),
                 (''Access-Control-Allow-Methods'', HText ''GET, POST, OPTIONS''),
                 (''Access-Control-Allow-Headers'', HText ''Content-Type'')] new_response of
           Raised res \<Rightarrow> (Raised res, None)
         | Returned res \<Rightarrow>
             if req_method req = ''OPTIONS'' then (writeHead 200 [] res, None)
             else if startsWith u ''/file/'' \<and> req_method req = ''GET''
               then (serveFile lib (substring u 6) res s fs rd, None)
             else if startsWith u ''/callback/'' \<and> req_method req = ''POST''
               then handleCallback lib (substring u 10) req res s
             else if u = ''/health''
               then (writeHead_end 200 [(''Content-Type'', HText ''application/json'')]
                       (''{"status":"ok","port":'' @ string_of_nat (port s) @ ''}'') res, None)
             else (writeHead_end 404 [(''Content-Type'', HText ''text/plain'')]
                     ''Not Found'' res, None))\<close>

subsection \<open>Sequences of calls and events on one server object\<close>

datatype call =
    Start
  | ListeningEvent server_address
  | ErrorEvent string
  | Stop
  | RegisterFile token vscode_uri
  | UnregisterFile token
  | OnCallback token handler
  | GetPort

fun apply_call :: "node_lib \<Rightarrow> call \<Rightarrow> FileServer \<Rightarrow> FileServer" where
  "apply_call lib Start s = snd (start s)"
| "apply_call lib (ListeningEvent a) s = snd (listening_callback a s)"
| "apply_call lib (ErrorEvent e) s = snd (error_event e s)"
| "apply_call lib Stop s = stop s"
| "apply_call lib (RegisterFile tok u) s = snd (registerFile lib tok u s)"
| "apply_call lib (UnregisterFile tok) s = unregisterFile tok s"
| "apply_call lib (OnCallback tok h) s = onCallback tok h s"
| "apply_call lib GetPort s = s"

fun run :: "node_lib \<Rightarrow> call list \<Rightarrow> FileServer \<Rightarrow> FileServer" where
  "run lib [] s = s"
| "run lib (c # cs) s = run lib cs (apply_call lib c s)"

fun is_listening_event :: "call \<Rightarrow> bool" where
  "is_listening_event (ListeningEvent a) = True"
| "is_listening_event c = False"

text \<open>The calls after which the recorded port may differ: \<open>stop()\<close> and the listening
  callback.\<close>

fun rebinds :: "call \<Rightarrow> bool" where
  "rebinds Stop = True"
| "rebinds (ListeningEvent a) = True"
| "rebinds c = False"

section \<open>The save reconciler (pptxEditorProvider.ts)\<close>

text \<open>
  What the outside world answers during one save: the result of \<open>http.get\<close> on a URL
  (a request error, or a response with its status code and body), how the write stream on
  the target behaves (it writes everything, fails to open, or emits \<open>'error'\<close> after some
  bytes have reached the file), and whether \<open>fs.unlink\<close> removes the file (its callback
  \<open>() => { }\<close> ignores a failure). These are the events the code listens to: \<open>'error'\<close> on
  the request, and \<open>'finish'\<close> and \<open>'error'\<close> on the write stream.

  A run of the save procedure is described by how its promise settles, the file system once
  all its file operations have run (\<open>fs.createWriteStream\<close> truncates the target when it
  opens it; \<open>fs.unlink\<close> is requested before \<open>reject\<close> is called), and the effects it
  requested, in order.
\<close>

datatype fetch_result = RequestError string | Response nat bytes

datatype write_stream = WritesAll | OpenFails string | WriteFails nat string

record io_env =
  http_get :: "string \<Rightarrow> fetch_result"
  disk :: write_stream
  unlink_succeeds :: bool

datatype effect =
    HttpGet string
  | CreateWriteStream string
  | Unlink string
  | ShowInformationMessage string
  | PostSaveComplete bool "string option"

record 'a run_result =
  settled :: "'a promise"
  fs_after :: filesystem
  effects :: "effect list"

definition unlink :: "io_env \<Rightarrow> string \<Rightarrow> filesystem \<Rightarrow> filesystem" where
  "unlink env p fs = (if unlink_succeeds env then fs(p := None) else fs)"

definition saveDocument :: "io_env \<Rightarrow> string \<Rightarrow> vscode_uri \<Rightarrow> filesystem \<Rightarrow> unit run_result" where
  "saveDocument env downloadUrl targetUri fs =
     (case http_get env downloadUrl of
        RequestError e \<Rightarrow>
          \<lparr>settled = Rejected e, fs_after = fs, effects = [HttpGet downloadUrl]\<rparr>
      | Response code content \<Rightarrow>
          if code \<noteq> 200
          then \<lparr>settled = Rejected (''Failed to download: '' @ string_of_nat code),
                fs_after = fs, effects = [HttpGet downloadUrl]\<rparr>
          else
            (let p = fsPath targetUri in
             case disk env of
               WritesAll \<Rightarrow>
                 \<lparr>settled = Resolved (), fs_after = fs(p \<mapsto> content),
                  effects = [HttpGet downloadUrl, CreateWriteStream p,
                             ShowInformationMessage ''Presentation saved successfully'']\<rparr>
             | OpenFails e \<Rightarrow>
                 \<lparr>settled = Rejected e, fs_after = unlink env p fs,
                  effects = [HttpGet downloadUrl, CreateWriteStream p, Unlink p]\<rparr>
             | WriteFails n e \<Rightarrow>
                 \<lparr>settled = Rejected e, fs_after = unlink env p (fs(p \<mapsto> take n content)),
                  effects = [HttpGet downloadUrl, CreateWriteStream p, Unlink p]\<rparr>))"

text \<open>\<open>handleOnlyOfficeCallback\<close>; \<open>if (downloadUrl)\<close> is false for a missing field and for
  the empty string.\<close>

definition handleOnlyOfficeCallback ::
  "io_env \<Rightarrow> OnlyOfficeCallback \<Rightarrow> vscode_uri \<Rightarrow> filesystem \<Rightarrow> unit run_result" where
  "handleOnlyOfficeCallback env data document fs =
     (if status data = 2 \<or> status data = 6
      then (case url data of
              None \<Rightarrow> \<lparr>settled = Resolved (), fs_after = fs, effects = []\<rparr>
            | Some downloadUrl \<Rightarrow>
                if downloadUrl = [] then \<lparr>settled = Resolved (), fs_after = fs, effects = []\<rparr>
                else
                  (let r = saveDocument env downloadUrl document fs in
                   case settled r of
                     Rejected err \<Rightarrow>
                       r\<lparr>settled := Resolved (),
                         effects := effects r @ [PostSaveComplete False (Some (''Error: '' @ err))]\<rparr>
                   | _ \<Rightarrow>
                       r\<lparr>settled := Resolved (),
                         effects := effects r @ [PostSaveComplete True None]\<rparr>))
      else \<lparr>settled = Resolved (), fs_after = fs, effects = []\<rparr>)"

section \<open>An instance of the runtime functions\<close>

text \<open>POSIX paths with ordinary file names and ASCII letters, and a reader for three
  request bodies; used to run the model on examples.\<close>

definition ascii_lower :: "char \<Rightarrow> char" where
  "ascii_lower c =
     (case map_of (zip ''ABCDEFGHIJKLMNOPQRSTUVWXYZ'' ''abcdefghijklmnopqrstuvwxyz'') c of
        Some l \<Rightarrow> l
      | None \<Rightarrow> c)"

definition posix_basename :: "string \<Rightarrow> string" where
  "posix_basename p = rev (takeWhile (\<lambda>c. c \<noteq> CHR ''/'') (rev p))"

definition posix_extname :: "string \<Rightarrow> string" where
  "posix_extname p =
     (let b = posix_basename p;
          e = rev (takeWhile (\<lambda>c. c \<noteq> CHR ''.'') (rev b))
      in if CHR ''.'' \<in> set b \<and> length e + 1 < length b then CHR ''.'' # e else [])"

definition example_parse :: "string \<Rightarrow> OnlyOfficeCallback option" where
  \<open>example_parse b =
     (if b = ''{"status":1}'' then Some \<lparr>status = 1, url = None, key = None\<rparr>
      else if b = ''{"status":2,"url":"http://localhost:8080/cache/out.pptx"}''
        then Some \<lparr>status = 2, url = Some ''http://localhost:8080/cache/out.pptx'', key = None\<rparr>
      else if b = ''{"status":4,"key":"k"}'' then Some \<lparr>status = 4, url = None, key = Some ''k''\<rparr>
      else None)\<close>

definition posix_lib :: node_lib where
  "posix_lib =
     \<lparr>extname = posix_extname, basename = posix_basename, toLowerCase = map ascii_lower,
      JSON_parse = example_parse\<rparr>"

definition deck_uri :: vscode_uri where
  "deck_uri = \<lparr>fsPath = ''/home/u/Deck.PPTX''\<rparr>"

definition deck_fs :: filesystem where
  "deck_fs = [''/home/u/Deck.PPTX'' \<mapsto> ''PK-old-deck'']"

definition throwing_handler :: handler where
  "throwing_handler = (\<lambda>data. Throws)"

definition rejecting_handler :: handler where
  "rejecting_handler = async_fn (\<lambda>data. Rejects)"

definition two_sessions :: FileServer where
  "two_sessions =
     onCallback ''b2'' rejecting_handler
       (snd (registerFile posix_lib ''b2'' deck_uri
         (onCallback ''a1'' throwing_handler
           (snd (registerFile posix_lib ''a1'' deck_uri (new_FileServer ''10.0.0.5''))))))"

text \<open>A document service that has the new version at one URL and answers 404 elsewhere; a
  disk that takes the whole file, and one that fails after three bytes.\<close>

definition example_env :: io_env where
  "example_env =
     \<lparr>http_get = (\<lambda>u. if u = ''http://localhost:8080/cache/out.pptx''
                       then Response 200 ''PK-new-deck'' else Response 404 ''''),
      disk = WritesAll,
      unlink_succeeds = True\<rparr>"

definition disk_full_env :: io_env where
  "disk_full_env = example_env\<lparr>disk := WriteFails 3 ''ENOSPC''\<rparr>"

text \<open>A file registered before any \<open>start()\<close>, and one registered on a started server.\<close>

definition early_registration :: FileServer where
  "early_registration = snd (registerFile posix_lib ''a1'' deck_uri (new_FileServer ''10.0.0.5''))"

definition started_session :: FileServer where
  "started_session =
     snd (registerFile posix_lib ''a1'' deck_uri
       (snd (listening_callback (AddressInfo 40123) (snd (start (new_FileServer ''10.0.0.5''))))))"




text \<open>The same disk, on which the deletion fails as well.\<close>

definition unlink_fails_env :: io_env where
  "unlink_fails_env = disk_full_env\<lparr>unlink_succeeds := False\<rparr>"

section \<open>Properties\<close>

subsection \<open>Auxiliary facts\<close>

lemma string_of_nat_0: "string_of_nat 0 = ''0''"
  by (simp add: string_of_nat.simps digit_char_def)

lemma apply_call_hostIp: "hostIp (apply_call lib c s) = hostIp s"
  by (cases c)
     (simp_all add: start_def listening_callback_def error_event_def stop_def registerFile_def
        unregisterFile_def onCallback_def Let_def split: option.splits server_address.splits)

lemma run_hostIp: "hostIp (run lib cs s) = hostIp s"
  by (induction cs arbitrary: s) (simp_all add: apply_call_hostIp)

text \<open>Whenever there is no server object the recorded port is 0: the port is written only by
  the listening callback, which needs the object, and \<open>stop\<close> resets it.\<close>

lemma apply_call_port_inv:
  "server s = None \<longrightarrow> port s = 0 \<Longrightarrow>
   server (apply_call lib c s) = None \<longrightarrow> port (apply_call lib c s) = 0"
  by (cases c)
     (simp_all add: start_def listening_callback_def error_event_def stop_def registerFile_def
        unregisterFile_def onCallback_def Let_def split: option.splits server_address.splits)

lemma run_port_inv:
  "server s = None \<longrightarrow> port s = 0 \<Longrightarrow>
   server (run lib cs s) = None \<longrightarrow> port (run lib cs s) = 0"
proof (induction cs arbitrary: s)
  case Nil
  then show ?case by simp
next
  case (Cons c cs)
  have "server (apply_call lib c s) = None \<longrightarrow> port (apply_call lib c s) = 0"
    using Cons.prems by (rule apply_call_port_inv)
  then show ?case using Cons.IH by simp
qed

lemma port_stop_after_run: "port (stop (run lib cs (new_FileServer ip))) = 0"
proof -
  have "server (run lib cs (new_FileServer ip)) = None
          \<longrightarrow> port (run lib cs (new_FileServer ip)) = 0"
    by (rule run_port_inv) (simp add: new_FileServer_def)
  then show ?thesis by (simp add: stop_def)
qed

lemma apply_call_port_0:
  "port s = 0 \<Longrightarrow> \<not> is_listening_event c \<Longrightarrow> port (apply_call lib c s) = 0"
  by (cases c)
     (simp_all add: start_def error_event_def stop_def registerFile_def
        unregisterFile_def onCallback_def Let_def)

lemma run_port_0:
  "port s = 0 \<Longrightarrow> \<forall>c\<in>set cs. \<not> is_listening_event c \<Longrightarrow> port (run lib cs s) = 0"
  by (induction cs arbitrary: s) (simp_all add: apply_call_port_0)

lemma apply_call_started:
  "server s \<noteq> None \<Longrightarrow> \<not> rebinds c \<Longrightarrow>
   server (apply_call lib c s) = server s \<and> port (apply_call lib c s) = port s"
  by (cases c)
     (auto simp: start_def error_event_def registerFile_def
        unregisterFile_def onCallback_def Let_def)

lemma run_started:
  "server s \<noteq> None \<Longrightarrow> \<forall>c\<in>set cs. \<not> rebinds c \<Longrightarrow>
   server (run lib cs s) = server s \<and> port (run lib cs s) = port s"
proof (induction cs arbitrary: s)
  case Nil
  then show ?case by simp
next
  case (Cons c cs)
  have step: "server (apply_call lib c s) = server s \<and> port (apply_call lib c s) = port s"
    using Cons.prems by (simp add: apply_call_started)
  with Cons.prems have "server (apply_call lib c s) \<noteq> None" by simp
  with Cons.IH [of "apply_call lib c s"] Cons.prems step show ?case by simp
qed

subsection \<open>The token registry\<close>

text \<open>
  C9. \<open>unregisterFile t\<close> removes the file record and the callback binding of \<open>t\<close> and
  nothing else: the records and bindings of every other token, the server object, the port
  and the host address stay as they are; for a token with neither a record nor a binding
  the registry is unchanged. The function is total, so it never raises.
\<close>

theorem unregisterFile_frame:
  "servedFiles (unregisterFile t s) t = None
   \<and> callbackHandlers (unregisterFile t s) t = None
   \<and> (\<forall>t'. t' \<noteq> t \<longrightarrow>
          servedFiles (unregisterFile t s) t' = servedFiles s t'
          \<and> callbackHandlers (unregisterFile t s) t' = callbackHandlers s t')
   \<and> server (unregisterFile t s) = server s
   \<and> port (unregisterFile t s) = port s
   \<and> hostIp (unregisterFile t s) = hostIp s
   \<and> (servedFiles s t = None \<and> callbackHandlers s t = None \<longrightarrow> unregisterFile t s = s)"
  by (auto simp: unregisterFile_def fun_upd_idem)

theorem unregisterFile_frame_witness:
  "servedFiles (unregisterFile ''a1'' two_sessions) ''a1'' = None
   \<and> callbackHandlers (unregisterFile ''a1'' two_sessions) ''a1'' = None
   \<and> servedFiles two_sessions ''a1'' \<noteq> None
   \<and> servedFiles (unregisterFile ''a1'' two_sessions) ''b2'' = servedFiles two_sessions ''b2''
   \<and> callbackHandlers (unregisterFile ''a1'' two_sessions) ''b2''
        = callbackHandlers two_sessions ''b2''
   \<and> servedFiles two_sessions ''b2'' \<noteq> None
   \<and> unregisterFile ''zz'' two_sessions = two_sessions"
  using unregisterFile_frame [of "''a1''" two_sessions]
        unregisterFile_frame [of "''zz''" two_sessions]
  by (simp add: two_sessions_def onCallback_def registerFile_def unregisterFile_def
        new_FileServer_def Let_def)

subsection \<open>Starting and stopping\<close>

text \<open>
  C5. \<open>start()\<close> is idempotent once the server is started. From a state with no server
  object the first call is pending until the listening callback resolves it with the bound
  port \<open>p\<close>; after any further calls other than \<open>stop()\<close>, a second \<open>start()\<close> resolves
  with the same \<open>p\<close>, does not reject, and leaves the state as it is: the server object is
  kept and no \<open>listen\<close> is requested.
\<close>

theorem start_idempotent:
  assumes "server s0 = None" and "\<forall>c\<in>set cs. \<not> rebinds c"
  shows "fst (start s0) = Pending
       \<and> fst (listening_callback (AddressInfo p) (snd (start s0))) = Resolved p
       \<and> start (run lib cs (snd (listening_callback (AddressInfo p) (snd (start s0)))))
           = (Resolved p, run lib cs (snd (listening_callback (AddressInfo p) (snd (start s0)))))"
proof -
  let ?s2 = "snd (listening_callback (AddressInfo p) (snd (start s0)))"
  have first: "fst (start s0) = Pending"
    using assms(1) by (simp add: start_def)
  have second: "fst (listening_callback (AddressInfo p) (snd (start s0))) = Resolved p"
    using assms(1) by (simp add: start_def listening_callback_def)
  have s2: "server ?s2 = Some (Listening (AddressInfo p)) \<and> port ?s2 = p"
    using assms(1) by (simp add: start_def listening_callback_def)
  then have "server ?s2 \<noteq> None" by simp
  from run_started [OF this assms(2), of lib] s2
  have "server (run lib cs ?s2) \<noteq> None \<and> port (run lib cs ?s2) = p" by simp
  then have "start (run lib cs ?s2) = (Resolved p, run lib cs ?s2)"
    by (simp add: start_def)
  with first second show ?thesis by simp
qed

theorem start_idempotent_witness:
  "fst (start (new_FileServer ''10.0.0.5'')) = Pending
   \<and> fst (listening_callback (AddressInfo 40123) (snd (start (new_FileServer ''10.0.0.5''))))
        = Resolved 40123
   \<and> fst (start (run posix_lib [RegisterFile ''a1'' deck_uri, GetPort, Start]
        (snd (listening_callback (AddressInfo 40123) (snd (start (new_FileServer ''10.0.0.5'')))))))
        = Resolved 40123"
  using start_idempotent [of "new_FileServer ''10.0.0.5''"
      "[RegisterFile ''a1'' deck_uri, GetPort, Start]" 40123 posix_lib]
  by (simp add: new_FileServer_def)

text \<open>
  C10. A \<open>registerFile\<close> call made while no \<open>start()\<close> has completed since the server was
  constructed or last stopped (no listening callback has run since) returns a \<open>url\<close> and a
  \<open>callbackUrl\<close> with port 0, \<open>http://<hostIp>:0/file/<token>\<close> and
  \<open>http://<hostIp>:0/callback/<token>\<close>, and still stores the file record under the
  returned token.
\<close>

theorem registerFile_unbound_port:
  assumes "\<forall>c\<in>set cs. \<not> is_listening_event c"
  shows "reg_url (fst (registerFile lib tok u (run lib cs (stop (run lib cs0 (new_FileServer ip))))))
           = ''http://'' @ ip @ '':0/file/'' @ tok
       \<and> reg_callbackUrl
            (fst (registerFile lib tok u (run lib cs (stop (run lib cs0 (new_FileServer ip))))))
           = ''http://'' @ ip @ '':0/callback/'' @ tok
       \<and> reg_token
            (fst (registerFile lib tok u (run lib cs (stop (run lib cs0 (new_FileServer ip))))))
           = tok
       \<and> servedFiles
            (snd (registerFile lib tok u (run lib cs (stop (run lib cs0 (new_FileServer ip))))))
            tok
           = Some \<lparr>filePath = fsPath u, uri = u, token = tok,
                   mimeType = mime_of (toLowerCase lib (extname lib (fsPath u)))\<rparr>"
proof -
  let ?s = "run lib cs (stop (run lib cs0 (new_FileServer ip)))"
  have p: "port ?s = 0"
    using port_stop_after_run assms by (rule run_port_0)
  have "hostIp ?s = hostIp (stop (run lib cs0 (new_FileServer ip)))" by (rule run_hostIp)
  also have "\<dots> = hostIp (run lib cs0 (new_FileServer ip))" by (simp add: stop_def)
  also have "\<dots> = ip" by (simp add: run_hostIp new_FileServer_def)
  finally have h: "hostIp ?s = ip" .
  show ?thesis
    by (simp add: registerFile_def Let_def base_url_def p h string_of_nat_0)
qed

theorem registerFile_unbound_port_witness:
  "reg_url (fst (registerFile posix_lib ''c3'' deck_uri
      (run posix_lib [Start, ErrorEvent ''EMFILE'', Start]
        (stop (run posix_lib [Start, ListeningEvent (AddressInfo 40123)]
          (new_FileServer ''10.0.0.5''))))))
     = ''http://10.0.0.5:0/file/c3''
   \<and> reg_callbackUrl (fst (registerFile posix_lib ''c3'' deck_uri
      (run posix_lib [Start, ErrorEvent ''EMFILE'', Start]
        (stop (run posix_lib [Start, ListeningEvent (AddressInfo 40123)]
          (new_FileServer ''10.0.0.5''))))))
     = ''http://10.0.0.5:0/callback/c3''
   \<and> servedFiles (snd (registerFile posix_lib ''c3'' deck_uri
      (run posix_lib [Start, ErrorEvent ''EMFILE'', Start]
        (stop (run posix_lib [Start, ListeningEvent (AddressInfo 40123)]
          (new_FileServer ''10.0.0.5'')))))) ''c3''
     = Some \<lparr>filePath = ''/home/u/Deck.PPTX'', uri = deck_uri, token = ''c3'',
             mimeType =
               ''application/vnd.openxmlformats-officedocument.presentationml.presentation''\<rparr>"
  using registerFile_unbound_port [of "[Start, ErrorEvent ''EMFILE'', Start]" posix_lib
      "''c3''" deck_uri "[Start, ListeningEvent (AddressInfo 40123)]" "''10.0.0.5''"]
  by (simp add: deck_uri_def posix_lib_def posix_extname_def posix_basename_def
        ascii_lower_def mime_of_def mimeTypes_def Let_def)

subsection \<open>Serving files\<close>

lemma cors_headers_set:
  "setHeaders
     [(''Access-Control-Allow-Origin'', HText ''*''),
      (''Access-Control-Allow-Methods'', HText ''GET, POST, OPTIONS''),
      (''Access-Control-Allow-Headers'', HText ''Content-Type'')] new_response
   = Returned \<lparr>statusCode = 200,
               headers = [(''Access-Control-Allow-Origin'', HText ''*''),
                          (''Access-Control-Allow-Methods'', HText ''GET, POST, OPTIONS''),
                          (''Access-Control-Allow-Headers'', HText ''Content-Type'')],
               headersSent = False, body = []\<rparr>"
  by (simp add: setHeader_def new_response_def checkInvalidHeaderChar_def
        invalid_header_byte_def)

lemma file_route:
  "handleRequest lib \<lparr>req_method = ''GET'', req_url = Some (''/file/'' @ tok), req_chunks = chunks\<rparr>
     s fs rd
   = (serveFile lib tok
        \<lparr>statusCode = 200,
         headers = [(''Access-Control-Allow-Origin'', HText ''*''),
                    (''Access-Control-Allow-Methods'', HText ''GET, POST, OPTIONS''),
                    (''Access-Control-Allow-Headers'', HText ''Content-Type'')],
         headersSent = False, body = []\<rparr>
        s fs rd, None)"
  unfolding handleRequest_def cors_headers_set
  by (simp add: startsWith_def substring_def Let_def)





text \<open>
  What the code does with a basename that is not valid in a header value: the \<open>catch\<close>
  block answers 500, \<open>text/plain\<close>, on the response as the throw left it, with the
  \<open>Content-Length\<close> of the file still set. A name with a character from \<open>U+0100\<close> on, such
  as a Cyrillic or a CJK one, is such a basename.
\<close>

lemma serve_invalid_basename:
  assumes "servedFiles s tok = Some fi" and "fs (filePath fi) = Some content"
    and "\<not> checkInvalidHeaderChar (mimeType fi)"
    and "checkInvalidHeaderChar (basename lib (filePath fi))"
  shows "fst (handleRequest lib
           \<lparr>req_method = ''GET'', req_url = Some (''/file/'' @ tok), req_chunks = chunks\<rparr>
           s fs rd)
         = Returned
             \<lparr>statusCode = 500,
              headers = [(''Access-Control-Allow-Origin'', HText ''*''),
                         (''Access-Control-Allow-Methods'', HText ''GET, POST, OPTIONS''),
                         (''Access-Control-Allow-Headers'', HText ''Content-Type''),
                         (''Content-Type'', HText ''text/plain''),
                         (''Content-Length'', HNumber (length content))],
              headersSent = True, body = ''Error reading file''\<rparr>"
  using assms unfolding file_route
  by (simp add: serveFile_def writeHead_end_def writeHead_def setHeader_def write_body_def
        checkInvalidHeaderChar_def invalid_header_byte_def Let_def)

lemma non_latin1_name_invalid:
  "checkInvalidHeaderChar ([CHR 0xD0, CHR 0x94, CHR 0xD0, CHR 0xB0] @ ''.pptx'')"
  by (simp add: checkInvalidHeaderChar_def invalid_header_byte_def)

subsection \<open>Receiving callbacks\<close>

lemma callback_route:
  "handleRequest lib
     \<lparr>req_method = ''POST'', req_url = Some (''/callback/'' @ tok), req_chunks = chunks\<rparr> s fs rd
   = handleCallback lib tok
       \<lparr>req_method = ''POST'', req_url = Some (''/callback/'' @ tok), req_chunks = chunks\<rparr>
       \<lparr>statusCode = 200,
        headers = [(''Access-Control-Allow-Origin'', HText ''*''),
                   (''Access-Control-Allow-Methods'', HText ''GET, POST, OPTIONS''),
                   (''Access-Control-Allow-Headers'', HText ''Content-Type'')],
        headersSent = False, body = []\<rparr>
       s"
  unfolding handleRequest_def cors_headers_set
  by (simp add: startsWith_def substring_def Let_def)

lemma async_fn_returns: "async_fn b d = ReturnsPromise (b d)"
  by (simp add: async_fn_def)

text \<open>
  C3, as stated, fails: the handler is called inside the \<open>try\<close> block, so with a bound
  handler that throws when called, a body that parses is answered with 500 and
  \<open>{"error":1}\<close>.
\<close>

theorem callback_throwing_handler_counterexample:
  \<open>JSON_parse posix_lib (concat [''{"status":1}''])
     = Some \<lparr>status = 1, url = None, key = None\<rparr>
   \<and> callbackHandlers two_sessions ''a1'' = Some throwing_handler
   \<and> is_Returned (fst (handleRequest posix_lib
          \<lparr>req_method = ''POST'', req_url = Some ''/callback/a1'', req_chunks = [''{"status":1}'']\<rparr>
          two_sessions deck_fs StreamsAll))
   \<and> statusCode (after (fst (handleRequest posix_lib
          \<lparr>req_method = ''POST'', req_url = Some ''/callback/a1'', req_chunks = [''{"status":1}'']\<rparr>
          two_sessions deck_fs StreamsAll))) = 500
   \<and> body (after (fst (handleRequest posix_lib
          \<lparr>req_method = ''POST'', req_url = Some ''/callback/a1'', req_chunks = [''{"status":1}'']\<rparr>
          two_sessions deck_fs StreamsAll))) = ''{"error":1}''\<close>
  unfolding handleRequest_def cors_headers_set
  by (simp add: handleCallback_def startsWith_def substring_def
        two_sessions_def onCallback_def registerFile_def new_FileServer_def
        throwing_handler_def posix_lib_def example_parse_def
        writeHead_end_def writeHead_def write_body_def setHeader_def
        checkInvalidHeaderChar_def invalid_header_byte_def Let_def)

text \<open>
  C3, amended. For every \<open>POST /callback/<token>\<close>: when the body does not parse, or the
  bound handler throws when it is called, the response is 500, \<open>application/json\<close>,
  \<open>{"error":1}\<close>. When the body parses and no handler is bound, no handler runs and the
  response is 200, \<open>application/json\<close>, \<open>{"error":0}\<close>; so it is when the bound handler
  returns, whatever becomes of a promise it returned. An \<open>async\<close> handler, such as the one the
  session controller binds, always returns: the response is 200 with \<open>{"error":0}\<close> whether
  its promise later fulfils or rejects.
\<close>

theorem callback_response:
  \<open>(let r = handleRequest lib
              \<lparr>req_method = ''POST'', req_url = Some (''/callback/'' @ tok), req_chunks = chunks\<rparr>
              s fs rd
    in (JSON_parse lib (concat chunks) = None
          \<or> (\<exists>d h. JSON_parse lib (concat chunks) = Some d \<and> callbackHandlers s tok = Some h
                   \<and> h d = Throws)
        \<longrightarrow> is_Returned (fst r)
            \<and> statusCode (after (fst r)) = 500
            \<and> map_of (headers (after (fst r))) ''Content-Type'' = Some (HText ''application/json'')
            \<and> body (after (fst r)) = ''{"error":1}'')
     \<and> (JSON_parse lib (concat chunks) = Some d \<and> callbackHandlers s tok = None
        \<longrightarrow> is_Returned (fst r)
            \<and> statusCode (after (fst r)) = 200
            \<and> map_of (headers (after (fst r))) ''Content-Type'' = Some (HText ''application/json'')
            \<and> body (after (fst r)) = ''{"error":0}''
            \<and> snd r = None)
     \<and> (JSON_parse lib (concat chunks) = Some d \<and> callbackHandlers s tok = Some h
          \<and> h d \<noteq> Throws
        \<longrightarrow> is_Returned (fst r)
            \<and> statusCode (after (fst r)) = 200
            \<and> map_of (headers (after (fst r))) ''Content-Type'' = Some (HText ''application/json'')
            \<and> body (after (fst r)) = ''{"error":0}''
            \<and> snd r = Some (h d))
     \<and> (JSON_parse lib (concat chunks) = Some d \<and> callbackHandlers s tok = Some (async_fn b)
        \<longrightarrow> is_Returned (fst r)
            \<and> statusCode (after (fst r)) = 200
            \<and> body (after (fst r)) = ''{"error":0}''
            \<and> snd r = Some (ReturnsPromise (b d))))\<close>
  unfolding callback_route
  by (cases "h d")
     (auto simp: handleCallback_def async_fn_returns writeHead_end_def writeHead_def
        write_body_def setHeader_def checkInvalidHeaderChar_def invalid_header_byte_def
        Let_def split: handler_run.splits)

theorem callback_response_witness:
  \<open>JSON_parse posix_lib (concat [''{"status'', ''":1'']) = None
   \<and> is_Returned (fst (handleRequest posix_lib
          \<lparr>req_method = ''POST'', req_url = Some ''/callback/b2'',
           req_chunks = [''{"status'', ''":1'']\<rparr> two_sessions deck_fs StreamsAll))
   \<and> statusCode (after (fst (handleRequest posix_lib
          \<lparr>req_method = ''POST'', req_url = Some ''/callback/b2'',
           req_chunks = [''{"status'', ''":1'']\<rparr> two_sessions deck_fs StreamsAll))) = 500
   \<and> body (after (fst (handleRequest posix_lib
          \<lparr>req_method = ''POST'', req_url = Some ''/callback/b2'',
           req_chunks = [''{"status'', ''":1'']\<rparr> two_sessions deck_fs StreamsAll))) = ''{"error":1}''
   \<and> callbackHandlers two_sessions ''zz'' = None
   \<and> handleRequest posix_lib
          \<lparr>req_method = ''POST'', req_url = Some ''/callback/zz'',
           req_chunks = [''{"status'', ''":1}'']\<rparr> two_sessions deck_fs StreamsAll
        = (Returned \<lparr>statusCode = 200,
            headers = [(''Access-Control-Allow-Origin'', HText ''*''),
                       (''Access-Control-Allow-Methods'', HText ''GET, POST, OPTIONS''),
                       (''Access-Control-Allow-Headers'', HText ''Content-Type''),
                       (''Content-Type'', HText ''application/json'')],
            headersSent = True, body = ''{"error":0}''\<rparr>, None)
   \<and> callbackHandlers two_sessions ''b2'' = Some (async_fn (\<lambda>data. Rejects))
   \<and> is_Returned (fst (handleRequest posix_lib
          \<lparr>req_method = ''POST'', req_url = Some ''/callback/b2'',
           req_chunks = [''{"status'', ''":1}'']\<rparr> two_sessions deck_fs StreamsAll))
   \<and> statusCode (after (fst (handleRequest posix_lib
          \<lparr>req_method = ''POST'', req_url = Some ''/callback/b2'',
           req_chunks = [''{"status'', ''":1}'']\<rparr> two_sessions deck_fs StreamsAll))) = 200
   \<and> body (after (fst (handleRequest posix_lib
          \<lparr>req_method = ''POST'', req_url = Some ''/callback/b2'',
           req_chunks = [''{"status'', ''":1}'']\<rparr> two_sessions deck_fs StreamsAll))) = ''{"error":0}''
   \<and> snd (handleRequest posix_lib
          \<lparr>req_method = ''POST'', req_url = Some ''/callback/b2'',
           req_chunks = [''{"status'', ''":1}'']\<rparr> two_sessions deck_fs StreamsAll)
        = Some (ReturnsPromise Rejects)\<close>
  using callback_response [where lib = posix_lib and tok = "''b2''"
          and chunks = \<open>[''{"status'', ''":1'']\<close> and s = two_sessions and fs = deck_fs
          and rd = StreamsAll]
        callback_response [where lib = posix_lib and tok = "''zz''"
          and chunks = \<open>[''{"status'', ''":1}'']\<close> and s = two_sessions and fs = deck_fs
          and rd = StreamsAll and d = "\<lparr>status = 1, url = None, key = None\<rparr>"]
        callback_response [where lib = posix_lib and tok = "''b2''"
          and chunks = \<open>[''{"status'', ''":1}'']\<close> and s = two_sessions and fs = deck_fs
          and rd = StreamsAll and d = "\<lparr>status = 1, url = None, key = None\<rparr>"
          and h = rejecting_handler and b = "\<lambda>data. Rejects"]
  unfolding handleRequest_def cors_headers_set
  by (simp add: handleCallback_def startsWith_def substring_def
        two_sessions_def onCallback_def registerFile_def new_FileServer_def
        rejecting_handler_def async_fn_def posix_lib_def example_parse_def
        writeHead_end_def writeHead_def write_body_def setHeader_def
        checkInvalidHeaderChar_def invalid_header_byte_def Let_def)

subsection \<open>The save reconciler\<close>

lemma saveDocument_effects_hd:
  "\<exists>rest. effects (saveDocument env u doc fs) = HttpGet u # rest \<and> (\<forall>v. HttpGet v \<notin> set rest)"
  by (auto simp: saveDocument_def Let_def split: fetch_result.splits write_stream.splits)

lemma saveDocument_HttpGet:
  "HttpGet v \<in> set (effects (saveDocument env u doc fs)) \<longleftrightarrow> v = u"
  using saveDocument_effects_hd [of env u doc fs] by auto

text \<open>
  C1. The reconciler performs a save, that is, it calls the save procedure, which fetches the
  download URL, if and only if the status is 2 or 6 and a download URL is present in the
  payload: \<open>if (downloadUrl)\<close> holds when the \<open>url\<close> field is there and is not the empty
  string. For every other payload (another status such as 1, or no download URL) the
  reconciler has no effect at all and the file system is unchanged. When the save is
  performed, the fetch answers 200 and the disk takes the data, the target file holds the
  fetched bytes afterwards and the UI is told that the save succeeded.
\<close>

theorem reconciler_saves_iff_ready:
  "(HttpGet u \<in> set (effects (handleOnlyOfficeCallback env d doc fs))
      \<longleftrightarrow> (status d = 2 \<or> status d = 6) \<and> url d = Some u \<and> u \<noteq> [])
   \<and> (\<not> ((status d = 2 \<or> status d = 6) \<and> (\<exists>v. url d = Some v \<and> v \<noteq> []))
        \<longrightarrow> effects (handleOnlyOfficeCallback env d doc fs) = []
            \<and> fs_after (handleOnlyOfficeCallback env d doc fs) = fs)
   \<and> ((status d = 2 \<or> status d = 6) \<and> url d = Some u \<and> u \<noteq> []
        \<and> http_get env u = Response 200 content \<and> disk env = WritesAll
        \<longrightarrow> fs_after (handleOnlyOfficeCallback env d doc fs) = fs(fsPath doc \<mapsto> content)
            \<and> effects (handleOnlyOfficeCallback env d doc fs)
                = [HttpGet u, CreateWriteStream (fsPath doc),
                   ShowInformationMessage ''Presentation saved successfully'',
                   PostSaveComplete True None])"
proof (intro conjI impI)
  show "HttpGet u \<in> set (effects (handleOnlyOfficeCallback env d doc fs))
      \<longleftrightarrow> (status d = 2 \<or> status d = 6) \<and> url d = Some u \<and> u \<noteq> []"
    by (auto simp: handleOnlyOfficeCallback_def Let_def saveDocument_HttpGet
          split: option.splits promise.splits)
next
  assume "\<not> ((status d = 2 \<or> status d = 6) \<and> (\<exists>v. url d = Some v \<and> v \<noteq> []))"
  then show "effects (handleOnlyOfficeCallback env d doc fs) = []"
    by (auto simp: handleOnlyOfficeCallback_def split: option.splits)
next
  assume "\<not> ((status d = 2 \<or> status d = 6) \<and> (\<exists>v. url d = Some v \<and> v \<noteq> []))"
  then show "fs_after (handleOnlyOfficeCallback env d doc fs) = fs"
    by (auto simp: handleOnlyOfficeCallback_def split: option.splits)
next
  assume a: "(status d = 2 \<or> status d = 6) \<and> url d = Some u \<and> u \<noteq> []
        \<and> http_get env u = Response 200 content \<and> disk env = WritesAll"
  then show "fs_after (handleOnlyOfficeCallback env d doc fs) = fs(fsPath doc \<mapsto> content)"
    by (auto simp: handleOnlyOfficeCallback_def saveDocument_def Let_def)
  from a show "effects (handleOnlyOfficeCallback env d doc fs)
                = [HttpGet u, CreateWriteStream (fsPath doc),
                   ShowInformationMessage ''Presentation saved successfully'',
                   PostSaveComplete True None]"
    by (auto simp: handleOnlyOfficeCallback_def saveDocument_def Let_def)
qed

theorem reconciler_saves_iff_ready_witness:
  "HttpGet ''http://localhost:8080/cache/out.pptx''
     \<in> set (effects (handleOnlyOfficeCallback example_env
          \<lparr>status = 6, url = Some ''http://localhost:8080/cache/out.pptx'', key = None\<rparr>
          deck_uri deck_fs))
   \<and> fs_after (handleOnlyOfficeCallback example_env
          \<lparr>status = 6, url = Some ''http://localhost:8080/cache/out.pptx'', key = None\<rparr>
          deck_uri deck_fs) ''/home/u/Deck.PPTX'' = Some ''PK-new-deck''
   \<and> effects (handleOnlyOfficeCallback example_env
          \<lparr>status = 1, url = Some ''http://localhost:8080/cache/out.pptx'', key = None\<rparr>
          deck_uri deck_fs) = []
   \<and> fs_after (handleOnlyOfficeCallback example_env
          \<lparr>status = 1, url = Some ''http://localhost:8080/cache/out.pptx'', key = None\<rparr>
          deck_uri deck_fs) = deck_fs
   \<and> fs_after (handleOnlyOfficeCallback example_env \<lparr>status = 2, url = None, key = None\<rparr>
          deck_uri deck_fs) = deck_fs"
  using reconciler_saves_iff_ready [where env = example_env
          and d = "\<lparr>status = 6, url = Some ''http://localhost:8080/cache/out.pptx'', key = None\<rparr>"
          and u = "''http://localhost:8080/cache/out.pptx''"
          and doc = deck_uri and fs = deck_fs and content = "''PK-new-deck''"]
        reconciler_saves_iff_ready [where env = example_env
          and d = "\<lparr>status = 1, url = Some ''http://localhost:8080/cache/out.pptx'', key = None\<rparr>"
          and doc = deck_uri and fs = deck_fs]
        reconciler_saves_iff_ready [where env = example_env
          and d = "\<lparr>status = 2, url = None, key = None\<rparr>"
          and doc = deck_uri and fs = deck_fs]
  by (simp add: example_env_def deck_uri_def deck_fs_def)

text \<open>A \<open>url\<close> field that holds the empty string counts as no download URL.\<close>

lemma reconciler_empty_url:
  "effects (handleOnlyOfficeCallback env \<lparr>status = 2, url = Some [], key = None\<rparr> doc fs) = []
   \<and> fs_after (handleOnlyOfficeCallback env \<lparr>status = 2, url = Some [], key = None\<rparr> doc fs) = fs"
  by (simp add: handleOnlyOfficeCallback_def)

text \<open>
  C8. When the fetch of the download URL answers with a status other than 200 (every
  non-success status is one), \<open>saveDocument\<close> rejects with \<open>Failed to download: <status>\<close>
  before any write stream is opened: the file system, and the target file in it, is
  unchanged. The reconciler that called it leaves the file system unchanged too and reports
  the failure to the UI.
\<close>

theorem failed_download_keeps_target:
  assumes "http_get env u = Response code content" and "code \<noteq> 200"
  shows "settled (saveDocument env u target fs)
           = Rejected (''Failed to download: '' @ string_of_nat code)
       \<and> fs_after (saveDocument env u target fs) = fs
       \<and> effects (saveDocument env u target fs) = [HttpGet u]
       \<and> ((status d = 2 \<or> status d = 6) \<and> url d = Some u \<and> u \<noteq> [] \<longrightarrow>
            fs_after (handleOnlyOfficeCallback env d target fs) = fs
            \<and> effects (handleOnlyOfficeCallback env d target fs)
                = [HttpGet u,
                   PostSaveComplete False
                     (Some (''Error: Failed to download: '' @ string_of_nat code))])"
  using assms by (auto simp: saveDocument_def handleOnlyOfficeCallback_def Let_def)

theorem failed_download_keeps_target_witness:
  "http_get example_env ''http://localhost:8080/cache/gone.pptx'' = Response 404 ''''
   \<and> settled (saveDocument example_env ''http://localhost:8080/cache/gone.pptx'' deck_uri deck_fs)
        = Rejected ''Failed to download: 404''
   \<and> fs_after (saveDocument example_env ''http://localhost:8080/cache/gone.pptx'' deck_uri deck_fs)
        = deck_fs
   \<and> deck_fs ''/home/u/Deck.PPTX'' = Some ''PK-old-deck''
   \<and> effects (handleOnlyOfficeCallback example_env
          \<lparr>status = 2, url = Some ''http://localhost:8080/cache/gone.pptx'', key = None\<rparr>
          deck_uri deck_fs)
        = [HttpGet ''http://localhost:8080/cache/gone.pptx'',
           PostSaveComplete False (Some ''Error: Failed to download: 404'')]"
  using failed_download_keeps_target [where env = example_env
          and u = "''http://localhost:8080/cache/gone.pptx''" and code = 404 and content = "''''"
          and target = deck_uri and fs = deck_fs
          and d = "\<lparr>status = 2, url = Some ''http://localhost:8080/cache/gone.pptx'', key = None\<rparr>"]
  by (simp add: example_env_def deck_fs_def string_of_nat.simps digit_char_def)

text \<open>
  C2, as stated, fails: the deletion of the partially written file can fail, and the code
  ignores that (the callback of \<open>fs.unlink\<close> is \<open>() => { }\<close>). The target path then holds
  the truncated file: not the previous version, not the new one, and not no file.
\<close>

theorem write_error_unlink_fails_counterexample:
  "http_get unlink_fails_env ''http://localhost:8080/cache/out.pptx''
     = Response 200 ''PK-new-deck''
   \<and> disk unlink_fails_env = WriteFails 3 ''ENOSPC''
   \<and> deck_fs (fsPath deck_uri) = Some ''PK-old-deck''
   \<and> settled (saveDocument unlink_fails_env ''http://localhost:8080/cache/out.pptx''
        deck_uri deck_fs) = Rejected ''ENOSPC''
   \<and> effects (saveDocument unlink_fails_env ''http://localhost:8080/cache/out.pptx''
        deck_uri deck_fs)
        = [HttpGet ''http://localhost:8080/cache/out.pptx'',
           CreateWriteStream ''/home/u/Deck.PPTX'', Unlink ''/home/u/Deck.PPTX'']
   \<and> fs_after (saveDocument unlink_fails_env ''http://localhost:8080/cache/out.pptx''
        deck_uri deck_fs) (fsPath deck_uri) = Some ''PK-''"
  by (simp add: saveDocument_def unlink_fails_env_def disk_full_env_def example_env_def
        unlink_def deck_fs_def deck_uri_def Let_def)

text \<open>
  C2, amended. When a local write error occurs in mid-stream, \<open>saveDocument\<close> asks for the
  partially written target file to be deleted before it rejects with the error, and ignores
  whether that deletion succeeds. When it succeeds, no file is left at the target path, so
  no zero-length or truncated file is; when it fails, the truncated file stays there.
\<close>

theorem write_error_unlinks_target:
  assumes "http_get env u = Response 200 content" and "disk env = WriteFails n e"
  shows "settled (saveDocument env u target fs) = Rejected e
       \<and> effects (saveDocument env u target fs)
           = [HttpGet u, CreateWriteStream (fsPath target), Unlink (fsPath target)]
       \<and> (unlink_succeeds env \<longrightarrow> fs_after (saveDocument env u target fs) (fsPath target) = None)
       \<and> (\<not> unlink_succeeds env \<longrightarrow>
            fs_after (saveDocument env u target fs) (fsPath target) = Some (take n content))"
  using assms by (auto simp: saveDocument_def unlink_def Let_def)

theorem write_error_unlinks_target_witness:
  "settled (saveDocument disk_full_env ''http://localhost:8080/cache/out.pptx'' deck_uri deck_fs)
     = Rejected ''ENOSPC''
   \<and> effects (saveDocument disk_full_env ''http://localhost:8080/cache/out.pptx'' deck_uri deck_fs)
       = [HttpGet ''http://localhost:8080/cache/out.pptx'',
          CreateWriteStream ''/home/u/Deck.PPTX'', Unlink ''/home/u/Deck.PPTX'']
   \<and> unlink_succeeds disk_full_env
   \<and> fs_after (saveDocument disk_full_env ''http://localhost:8080/cache/out.pptx'' deck_uri deck_fs)
       ''/home/u/Deck.PPTX'' = None
   \<and> \<not> unlink_succeeds unlink_fails_env
   \<and> fs_after (saveDocument unlink_fails_env ''http://localhost:8080/cache/out.pptx'' deck_uri
       deck_fs) ''/home/u/Deck.PPTX'' = Some ''PK-''"
  using write_error_unlinks_target [where env = disk_full_env
          and u = "''http://localhost:8080/cache/out.pptx''" and content = "''PK-new-deck''"
          and n = 3 and e = "''ENOSPC''" and target = deck_uri and fs = deck_fs]
        write_error_unlinks_target [where env = unlink_fails_env
          and u = "''http://localhost:8080/cache/out.pptx''" and content = "''PK-new-deck''"
          and n = 3 and e = "''ENOSPC''" and target = deck_uri and fs = deck_fs]
  by (simp add: unlink_fails_env_def disk_full_env_def example_env_def deck_uri_def deck_fs_def)

subsection \<open>Stopping, and the window before the socket is bound\<close>

text \<open>
  C6, as stated, fails: \<open>registerFile\<close> stores a record also when no server object exists;
  \<open>stop()\<close> is then a no-op and keeps the record, and after the following \<open>start()\<close> the
  token is still served.
\<close>

theorem stop_keeps_early_record_counterexample:
  "server early_registration = None
   \<and> servedFiles early_registration ''a1'' \<noteq> None
   \<and> stop early_registration = early_registration
   \<and> is_Returned (fst (handleRequest posix_lib
          \<lparr>req_method = ''GET'', req_url = Some ''/file/a1'', req_chunks = []\<rparr>
          (snd (listening_callback (AddressInfo 40123) (snd (start (stop early_registration)))))
          deck_fs StreamsAll))
   \<and> statusCode (after (fst (handleRequest posix_lib
          \<lparr>req_method = ''GET'', req_url = Some ''/file/a1'', req_chunks = []\<rparr>
          (snd (listening_callback (AddressInfo 40123) (snd (start (stop early_registration)))))
          deck_fs StreamsAll))) = 200
   \<and> body (after (fst (handleRequest posix_lib
          \<lparr>req_method = ''GET'', req_url = Some ''/file/a1'', req_chunks = []\<rparr>
          (snd (listening_callback (AddressInfo 40123) (snd (start (stop early_registration)))))
          deck_fs StreamsAll))) = ''PK-old-deck''"
  unfolding handleRequest_def cors_headers_set
  by (simp add: early_registration_def registerFile_def new_FileServer_def stop_def start_def
        listening_callback_def serveFile_def startsWith_def substring_def
        writeHead_def write_body_def setHeader_def checkInvalidHeaderChar_def
        invalid_header_byte_def deck_uri_def deck_fs_def posix_lib_def posix_extname_def
        posix_basename_def ascii_lower_def mime_of_def mimeTypes_def Let_def)

text \<open>
  C6, amended. On a server whose server object exists, \<open>stop()\<close> closes and drops the object,
  clears all file records and callback bindings and resets the recorded port to 0; with no
  server object \<open>stop()\<close> changes nothing. After \<open>stop()\<close> on a server whose server object
  existed, followed by \<open>start()\<close>, every token is unknown: \<open>GET /file/<token>\<close> answers 404.
\<close>

theorem stop_clears_started_server:
  "(server s \<noteq> None \<longrightarrow>
      stop s = s\<lparr>server := None, port := 0, servedFiles := Map.empty,
                  callbackHandlers := Map.empty\<rparr>
      \<and> fst (start (stop s)) = Pending
      \<and> (\<forall>tok. is_Returned (fst (handleRequest lib
             \<lparr>req_method = ''GET'', req_url = Some (''/file/'' @ tok), req_chunks = chunks\<rparr>
             (snd (listening_callback a (snd (start (stop s))))) fs rd))
           \<and> statusCode (after (fst (handleRequest lib
             \<lparr>req_method = ''GET'', req_url = Some (''/file/'' @ tok), req_chunks = chunks\<rparr>
             (snd (listening_callback a (snd (start (stop s))))) fs rd))) = 404))
   \<and> (server s = None \<longrightarrow> stop s = s)"
proof (intro conjI impI allI)
  assume "server s \<noteq> None"
  then show "stop s = s\<lparr>server := None, port := 0, servedFiles := Map.empty,
                  callbackHandlers := Map.empty\<rparr>"
    by (simp add: stop_def)
next
  assume "server s \<noteq> None"
  then show "fst (start (stop s)) = Pending"
    by (simp add: stop_def start_def)
next
  fix tok
  assume "server s \<noteq> None"
  then have none: "servedFiles (snd (listening_callback a (snd (start (stop s))))) tok = None"
    by (simp add: stop_def start_def listening_callback_def split: server_address.splits)
  show "is_Returned (fst (handleRequest lib
             \<lparr>req_method = ''GET'', req_url = Some (''/file/'' @ tok), req_chunks = chunks\<rparr>
             (snd (listening_callback a (snd (start (stop s))))) fs rd))"
    unfolding file_route using none
    by (simp add: serveFile_def writeHead_end_def writeHead_def setHeader_def write_body_def
          checkInvalidHeaderChar_def invalid_header_byte_def)
  show "statusCode (after (fst (handleRequest lib
             \<lparr>req_method = ''GET'', req_url = Some (''/file/'' @ tok), req_chunks = chunks\<rparr>
             (snd (listening_callback a (snd (start (stop s))))) fs rd))) = 404"
    unfolding file_route using none
    by (simp add: serveFile_def writeHead_end_def writeHead_def setHeader_def write_body_def
          checkInvalidHeaderChar_def invalid_header_byte_def)
next
  assume "server s = None"
  then show "stop s = s" by (simp add: stop_def)
qed

theorem stop_clears_started_server_witness:
  "server started_session = Some (Listening (AddressInfo 40123))
   \<and> is_Returned (fst (handleRequest posix_lib
          \<lparr>req_method = ''GET'', req_url = Some ''/file/a1'', req_chunks = []\<rparr>
          started_session deck_fs StreamsAll))
   \<and> statusCode (after (fst (handleRequest posix_lib
          \<lparr>req_method = ''GET'', req_url = Some ''/file/a1'', req_chunks = []\<rparr>
          started_session deck_fs StreamsAll))) = 200
   \<and> port (stop started_session) = 0
   \<and> servedFiles (stop started_session) ''a1'' = None
   \<and> is_Returned (fst (handleRequest posix_lib
          \<lparr>req_method = ''GET'', req_url = Some ''/file/a1'', req_chunks = []\<rparr>
          (snd (listening_callback (AddressInfo 40999) (snd (start (stop started_session)))))
          deck_fs StreamsAll))
   \<and> statusCode (after (fst (handleRequest posix_lib
          \<lparr>req_method = ''GET'', req_url = Some ''/file/a1'', req_chunks = []\<rparr>
          (snd (listening_callback (AddressInfo 40999) (snd (start (stop started_session)))))
          deck_fs StreamsAll))) = 404
   \<and> stop (new_FileServer ''10.0.0.5'') = new_FileServer ''10.0.0.5''"
proof -
  have started: "server started_session \<noteq> None"
    by (simp add: started_session_def registerFile_def start_def listening_callback_def
          new_FileServer_def Let_def)
  have fresh: "server (new_FileServer ''10.0.0.5'') = None"
    by (simp add: new_FileServer_def)
  have served: "is_Returned (fst (handleRequest posix_lib
          \<lparr>req_method = ''GET'', req_url = Some ''/file/a1'', req_chunks = []\<rparr>
          started_session deck_fs StreamsAll))
     \<and> statusCode (after (fst (handleRequest posix_lib
          \<lparr>req_method = ''GET'', req_url = Some ''/file/a1'', req_chunks = []\<rparr>
          started_session deck_fs StreamsAll))) = 200"
    unfolding handleRequest_def cors_headers_set
    by (simp add: started_session_def registerFile_def start_def listening_callback_def
          new_FileServer_def serveFile_def startsWith_def substring_def
          writeHead_def write_body_def setHeader_def checkInvalidHeaderChar_def
          invalid_header_byte_def deck_uri_def deck_fs_def posix_lib_def posix_extname_def
          posix_basename_def ascii_lower_def mime_of_def mimeTypes_def Let_def)
  have obj: "server started_session = Some (Listening (AddressInfo 40123))"
    by (simp add: started_session_def registerFile_def start_def listening_callback_def
          new_FileServer_def Let_def)
  have inst: "stop started_session = started_session\<lparr>server := None, port := 0,
          servedFiles := Map.empty, callbackHandlers := Map.empty\<rparr>
      \<and> fst (start (stop started_session)) = Pending
      \<and> (\<forall>tok. is_Returned (fst (handleRequest posix_lib
             \<lparr>req_method = ''GET'', req_url = Some (''/file/'' @ tok), req_chunks = []\<rparr>
             (snd (listening_callback (AddressInfo 40999) (snd (start (stop started_session)))))
             deck_fs StreamsAll))
           \<and> statusCode (after (fst (handleRequest posix_lib
             \<lparr>req_method = ''GET'', req_url = Some (''/file/'' @ tok), req_chunks = []\<rparr>
             (snd (listening_callback (AddressInfo 40999) (snd (start (stop started_session)))))
             deck_fs StreamsAll))) = 404)"
    using stop_clears_started_server [where s = started_session and lib = posix_lib
      and chunks = "[]" and a = "AddressInfo 40999" and fs = deck_fs and rd = StreamsAll]
      started
    by blast
  then have eq: "stop started_session = started_session\<lparr>server := None, port := 0,
          servedFiles := Map.empty, callbackHandlers := Map.empty\<rparr>"
    by (rule conjunct1)
  have cleared: "port (stop started_session) = 0"
      "servedFiles (stop started_session) ''a1'' = None"
    by (simp_all add: eq)
  from inst have "is_Returned (fst (handleRequest posix_lib
          \<lparr>req_method = ''GET'', req_url = Some (''/file/'' @ ''a1''), req_chunks = []\<rparr>
          (snd (listening_callback (AddressInfo 40999) (snd (start (stop started_session)))))
          deck_fs StreamsAll))
     \<and> statusCode (after (fst (handleRequest posix_lib
          \<lparr>req_method = ''GET'', req_url = Some (''/file/'' @ ''a1''), req_chunks = []\<rparr>
          (snd (listening_callback (AddressInfo 40999) (snd (start (stop started_session)))))
          deck_fs StreamsAll))) = 404"
    by blast
  then have gone': "is_Returned (fst (handleRequest posix_lib
          \<lparr>req_method = ''GET'', req_url = Some ''/file/a1'', req_chunks = []\<rparr>
          (snd (listening_callback (AddressInfo 40999) (snd (start (stop started_session)))))
          deck_fs StreamsAll))
     \<and> statusCode (after (fst (handleRequest posix_lib
          \<lparr>req_method = ''GET'', req_url = Some ''/file/a1'', req_chunks = []\<rparr>
          (snd (listening_callback (AddressInfo 40999) (snd (start (stop started_session)))))
          deck_fs StreamsAll))) = 404"
    by simp
  have noop: "stop (new_FileServer ''10.0.0.5'') = new_FileServer ''10.0.0.5''"
    using stop_clears_started_server [where s = "new_FileServer ''10.0.0.5''"] fresh
    by blast
  from obj served cleared gone' noop show ?thesis by (simp only: simp_thms)
qed

text \<open>
  C4 does not hold of the code. \<open>start()\<close> assigns the server object before the socket is
  bound, and the \<open>'error'\<close> listener does not take it back. Between the first \<open>start()\<close> and
  the listening callback, and for good after an \<open>'error'\<close> event, the public operations
  show a server object with port 0: \<open>getPort()\<close> returns 0, a second \<open>start()\<close> resolves
  with 0 at once, and \<open>registerFile\<close> hands out URLs with port 0.
\<close>

theorem start_pending_exposes_port_0:
  "server (snd (start (new_FileServer ''10.0.0.5''))) = Some ListenPending
   \<and> getPort (snd (start (new_FileServer ''10.0.0.5''))) = 0
   \<and> fst (start (snd (start (new_FileServer ''10.0.0.5'')))) = Resolved 0
   \<and> reg_url (fst (registerFile posix_lib ''a1'' deck_uri
        (snd (start (new_FileServer ''10.0.0.5''))))) = ''http://10.0.0.5:0/file/a1''
   \<and> fst (error_event ''EMFILE'' (snd (start (new_FileServer ''10.0.0.5''))))
        = Rejected ''EMFILE''
   \<and> fst (start (snd (error_event ''EMFILE'' (snd (start (new_FileServer ''10.0.0.5''))))))
        = Resolved 0"
  by (simp add: start_def error_event_def getPort_def registerFile_def base_url_def
        new_FileServer_def string_of_nat_0 Let_def)

end
